theory Spec2Isabelle
  imports Main "HOL-Library.Word"
begin

section \<open>The non-partitioned table analysis job\<close>

text \<open>
  A shallow embedding of
  \<^verbatim>\<open>pkg/statistics/handle/autoanalyze/priorityqueue/non_partitioned_table_analysis_job.go\<close>.
  Methods with a pointer receiver that assign to a field return the updated job; methods
  that talk to the outside (the session pool, the statement executor, the eligibility
  check, the hooks) take a state and return the new one; a Go panic is a value.
\<close>

subsection \<open>Data\<close>

text \<open>
  Go's \<^verbatim>\<open>float64\<close> is kept as its 64-bit pattern: the job only stores and returns
  these values, it never computes with them. \<^verbatim>\<open>int64\<close> and \<^verbatim>\<open>time.Duration\<close>
  are 64-bit words. Go's \<^verbatim>\<open>int\<close> is only compared with a constant here and is
  an \<open>int\<close>.
\<close>

type_synonym float64 = "64 word"
type_synonym int64 = "64 word"

text \<open>
  Modelled from the spec: the declaration of \<^verbatim>\<open>Indicators\<close> is in another file of the
  package. Its three fields are the ones the constructor fills in (lines 66-70).
\<close>

record Indicators =
  ChangePercentage :: float64
  TableSize :: float64
  LastAnalysisDuration :: int64

text \<open>
  \<^verbatim>\<open>type analyzeType string\<close> with its two constants (lines 31-34). Go also has a
  method named \<^verbatim>\<open>analyzeTable\<close>; the constant keeps the name here and the method is
  \<open>analyzeTable_job\<close>.
\<close>

type_synonym analyzeType = string

definition analyzeTable :: analyzeType where
  "analyzeTable = ''analyzeTable''"

definition analyzeIndex :: analyzeType where
  "analyzeIndex = ''analyzeIndex''"

text \<open>
  The struct (lines 37-48). The data fields come first as a record of their own, since a
  \<^verbatim>\<open>JobHook\<close> is a function of the job: a hook is given the data fields of the job and
  acts on the world outside (\<open>'w\<close>). A \<^verbatim>\<open>nil\<close> hook is \<open>None\<close>.
\<close>

record JobFields =
  TableSchema :: string
  TableName :: string
  Indexes :: "string list"
  Indicators :: Indicators
  TableID :: int64
  TableStatsVer :: int
  Weight :: float64

type_synonym 'w JobHook = "JobFields \<Rightarrow> 'w \<Rightarrow> 'w"

record 'w NonPartitionedTableAnalysisJob = JobFields +
  successHook :: "'w JobHook option"
  failureHook :: "'w JobHook option"

definition NewNonPartitionedTableAnalysisJob ::
  "string \<Rightarrow> string \<Rightarrow> int64 \<Rightarrow> string list \<Rightarrow> int \<Rightarrow> float64 \<Rightarrow> float64 \<Rightarrow> int64
    \<Rightarrow> 'w NonPartitionedTableAnalysisJob" where
  "NewNonPartitionedTableAnalysisJob schema tableName tableID indexes tableStatsVer
      changePercentage tableSize lastAnalysisDuration =
    \<lparr> TableSchema = schema,
      TableName = tableName,
      Indexes = indexes,
      Indicators = \<lparr> ChangePercentage = changePercentage,
                     TableSize = tableSize,
                     LastAnalysisDuration = lastAnalysisDuration \<rparr>,
      TableID = tableID,
      TableStatsVer = tableStatsVer,
      Weight = 0,
      successHook = None,
      failureHook = None \<rparr>"

subsection \<open>Accessors\<close>

definition GetTableID :: "'w NonPartitionedTableAnalysisJob \<Rightarrow> int64" where
  "GetTableID j = TableID j"

definition RegisterSuccessHook ::
  "'w JobHook option \<Rightarrow> 'w NonPartitionedTableAnalysisJob \<Rightarrow> 'w NonPartitionedTableAnalysisJob" where
  "RegisterSuccessHook hook j = j\<lparr>successHook := hook\<rparr>"

definition RegisterFailureHook ::
  "'w JobHook option \<Rightarrow> 'w NonPartitionedTableAnalysisJob \<Rightarrow> 'w NonPartitionedTableAnalysisJob" where
  "RegisterFailureHook hook j = j\<lparr>failureHook := hook\<rparr>"

definition HasNewlyAddedIndex :: "'w NonPartitionedTableAnalysisJob \<Rightarrow> bool" where
  "HasNewlyAddedIndex j = (length (Indexes j) > 0)"

definition SetWeight ::
  "float64 \<Rightarrow> 'w NonPartitionedTableAnalysisJob \<Rightarrow> 'w NonPartitionedTableAnalysisJob" where
  "SetWeight weight j = j\<lparr>Weight := weight\<rparr>"

definition GetWeight :: "'w NonPartitionedTableAnalysisJob \<Rightarrow> float64" where
  "GetWeight j = Weight j"

definition GetIndicators :: "'w NonPartitionedTableAnalysisJob \<Rightarrow> Indicators" where
  "GetIndicators j = Indicators j"

definition SetIndicators ::
  "Indicators \<Rightarrow> 'w NonPartitionedTableAnalysisJob \<Rightarrow> 'w NonPartitionedTableAnalysisJob" where
  "SetIndicators indicators j = j\<lparr>Indicators := indicators\<rparr>"

definition getAnalyzeType :: "'w NonPartitionedTableAnalysisJob \<Rightarrow> analyzeType" where
  "getAnalyzeType j = (if HasNewlyAddedIndex j then analyzeIndex else analyzeTable)"

subsection \<open>SQL generation\<close>

text \<open>
  Both generators return the template and the parameter list
  (\<^verbatim>\<open>[]any\<close>; every element is a string here).
\<close>

definition GenSQLForAnalyzeTable ::
  "'w NonPartitionedTableAnalysisJob \<Rightarrow> string \<times> string list" where
  "GenSQLForAnalyzeTable j =
    (let sql = ''analyze table %n.%n'';
         params = [TableSchema j, TableName j]
     in (sql, params))"

definition GenSQLForAnalyzeIndex ::
  "'w NonPartitionedTableAnalysisJob \<Rightarrow> string \<Rightarrow> string \<times> string list" where
  "GenSQLForAnalyzeIndex j index =
    (let sql = ''analyze table %n.%n index %n'';
         params = [TableSchema j, TableName j, index]
     in (sql, params))"

text \<open>
  Modelled from the spec: the routine that binds the parameters to the template is not
  among the sources. In its format language \<^verbatim>\<open>%n\<close> stands for one identifier, escaped on
  its own, \<^verbatim>\<open>%?\<close> for one value, and \<^verbatim>\<open>%%\<close> for a percent sign; each of the first two
  consumes one parameter. \<open>placeholders\<close> lists the specifiers of a template from left to
  right.
\<close>

datatype placeholder = Identifier | Value

fun placeholders :: "string \<Rightarrow> placeholder list" where
  "placeholders (c # d # rest) =
    (if c = CHR ''%'' then
       (if d = CHR ''n'' then Identifier # placeholders rest
        else if d = CHR ''?'' then Value # placeholders rest
        else placeholders rest)
     else placeholders (d # rest))"
| "placeholders _ = []"

subsection \<open>The outside world\<close>

text \<open>
  Modelled from the spec: the collaborators of the job are not among the sources
  (spec section 6). They are parameters of the model, acting on a world \<open>'w\<close> that
  stands for everything outside the job: the session pool (\<^verbatim>\<open>statsHandle.SPool()\<close>,
  giving a session \<open>'s\<close> or an error \<open>'e\<close>), the analyze version of a session
  (\<^verbatim>\<open>sctx.GetSessionVars().AnalyzeVersion\<close>), the statement executor
  \<^verbatim>\<open>exec.AutoAnalyze\<close> (true on success) and the eligibility check
  \<^verbatim>\<open>isValidToAnalyze\<close> of the package. They are total: a collaborator that panics is
  not modelled.
\<close>

record ('w, 's, 'e) collaborators =
  SPool_Get :: "'w \<Rightarrow> ('e + 's) \<times> 'w"
  SPool_Put :: "'s \<Rightarrow> 'w \<Rightarrow> 'w"
  AnalyzeVersion :: "'s \<Rightarrow> 'w \<Rightarrow> int"
  exec_AutoAnalyze :: "'s \<Rightarrow> int \<Rightarrow> string \<Rightarrow> string list \<Rightarrow> 'w \<Rightarrow> bool \<times> 'w"
  isValidToAnalyze :: "'s \<Rightarrow> string \<Rightarrow> string \<Rightarrow> 'w \<Rightarrow> (bool \<times> string) \<times> 'w"

text \<open>
  The state threaded through the job's methods: the world, and a trace of what the job
  did to it, in order. The trace is there to state what was attempted and which hook was
  invoked; the job never reads it. A statement is recorded with its result.
\<close>

datatype hook_kind = SuccessHook | FailureHook

datatype event =
  AutoAnalyzeCalled int string "string list" bool
| HookCalled hook_kind

record 'w state =
  world :: 'w
  trace :: "event list"

fun hook_of :: "event \<Rightarrow> hook_kind option" where
  "hook_of (HookCalled k) = Some k"
| "hook_of (AutoAnalyzeCalled v sql params ok) = None"

definition hooks_fired :: "event list \<Rightarrow> hook_kind list" where
  "hooks_fired evs = List.map_filter hook_of evs"

text \<open>A trace entry of a statement that the executor reported as failed.\<close>

fun stmt_failed :: "event \<Rightarrow> bool" where
  "stmt_failed (AutoAnalyzeCalled v sql params ok) = (\<not> ok)"
| "stmt_failed (HookCalled k) = False"

text \<open>Go panics that the job's own code could raise.\<close>

datatype panic = NilFuncCall | IndexOutOfRange

text \<open>\<^verbatim>\<open>xs[i]\<close> on a slice.\<close>

definition index_at :: "'a list \<Rightarrow> nat \<Rightarrow> panic + 'a" where
  "index_at xs i = (if i < length xs then Inr (xs ! i) else Inl IndexOutOfRange)"

text \<open>
  Calling the function value stored in a hook field, \<^verbatim>\<open>j.successHook(j)\<close>: a nil
  function value panics.
\<close>

definition call_JobHook ::
  "hook_kind \<Rightarrow> 'w JobHook option \<Rightarrow> JobFields \<Rightarrow> 'w state \<Rightarrow> (panic + unit) \<times> 'w state" where
  "call_JobHook k hook j st =
    (case hook of
       None \<Rightarrow> (Inl NilFuncCall, st)
     | Some h \<Rightarrow> (Inr (), \<lparr> world = h j (world st), trace = trace st @ [HookCalled k] \<rparr>))"

text \<open>A call of \<^verbatim>\<open>exec.AutoAnalyze\<close>, recorded.\<close>

definition AutoAnalyze ::
  "('w, 's, 'e) collaborators \<Rightarrow> 's \<Rightarrow> int \<Rightarrow> string \<Rightarrow> string list \<Rightarrow> 'w state
    \<Rightarrow> bool \<times> 'w state" where
  "AutoAnalyze X sctx statsVer sql params st =
    (let (ok, w) = exec_AutoAnalyze X sctx statsVer sql params (world st)
     in (ok, \<lparr> world = w, trace = trace st @ [AutoAnalyzeCalled statsVer sql params ok] \<rparr>))"

text \<open>
  Modelled from the spec: \<^verbatim>\<open>statsutil.CallWithSCtx\<close> is not among the sources. Spec
  section 4.3, steps 3, 5 and 6: it acquires a session from the pool; when the pool
  gives none, it returns the pool's error and the callback does not run; otherwise it
  runs the callback on the session, releases the session on every exit path, and returns
  what the callback returned. The variables the callback captures (\<open>'l\<close>) travel with
  the state.
\<close>

definition CallWithSCtx ::
  "('w, 's, 'e) collaborators
    \<Rightarrow> ('s \<Rightarrow> 'l \<times> 'w state \<Rightarrow> (panic + 'e option) \<times> ('l \<times> 'w state))
    \<Rightarrow> 'l \<times> 'w state \<Rightarrow> (panic + 'e option) \<times> ('l \<times> 'w state)" where
  "CallWithSCtx X f = (\<lambda>(l, st).
    (case SPool_Get X (world st) of
       (Inl err, w) \<Rightarrow> (Inr (Some err), (l, st\<lparr>world := w\<rparr>))
     | (Inr sctx, w) \<Rightarrow>
         (let (r, (l', st')) = f sctx (l, st\<lparr>world := w\<rparr>)
          in (r, (l', st'\<lparr>world := SPool_Put X sctx (world st')\<rparr>)))))"

text \<open>
  The trace entry of the analyze-index statement of job \<open>j\<close> for the index \<open>idx\<close>,
  with the result \<open>ok\<close> of the statement.
\<close>

definition index_event :: "'w NonPartitionedTableAnalysisJob \<Rightarrow> bool \<Rightarrow> string \<Rightarrow> event" where
  "index_event j ok idx =
    AutoAnalyzeCalled (TableStatsVer j) ''analyze table %n.%n index %n''
      [TableSchema j, TableName j, idx] ok"

subsection \<open>Execution\<close>

definition analyzeTable_job ::
  "('w, 's, 'e) collaborators \<Rightarrow> 'w NonPartitionedTableAnalysisJob \<Rightarrow> 's \<Rightarrow> 'w state
    \<Rightarrow> bool \<times> 'w state" where
  "analyzeTable_job X j sctx st =
    (let (sql, params) = GenSQLForAnalyzeTable j
     in AutoAnalyze X sctx (TableStatsVer j) sql params st)"

text \<open>The \<^verbatim>\<open>for _, index := range j.Indexes\<close> loop of \<^verbatim>\<open>analyzeIndexes\<close> (lines 219-225).\<close>

fun analyzeIndexes_loop ::
  "('w, 's, 'e) collaborators \<Rightarrow> 'w NonPartitionedTableAnalysisJob \<Rightarrow> 's \<Rightarrow> string list
    \<Rightarrow> 'w state \<Rightarrow> bool \<times> 'w state" where
  "analyzeIndexes_loop X j sctx [] st = (True, st)"
| "analyzeIndexes_loop X j sctx (index # rest) st =
    (let (sql, params) = GenSQLForAnalyzeIndex j index;
         (ok, st') = AutoAnalyze X sctx (TableStatsVer j) sql params st
     in if \<not> ok then (False, st') else analyzeIndexes_loop X j sctx rest st')"

definition analyzeIndexes ::
  "('w, 's, 'e) collaborators \<Rightarrow> 'w NonPartitionedTableAnalysisJob \<Rightarrow> 's \<Rightarrow> 'w state
    \<Rightarrow> (panic + bool) \<times> 'w state" where
  "analyzeIndexes X j sctx st =
    (if length (Indexes j) = 0 then (Inr True, st)
     else
       (let analyzeVersion = AnalyzeVersion X sctx (world st) in
        if analyzeVersion = 1 then
          (let (ok, st') = analyzeIndexes_loop X j sctx (Indexes j) st in (Inr ok, st'))
        else
          (case index_at (Indexes j) 0 of
             Inl p \<Rightarrow> (Inl p, st)
           | Inr firstIndex \<Rightarrow>
               (let (sql, params) = GenSQLForAnalyzeIndex j firstIndex;
                    (ok, st') = AutoAnalyze X sctx (TableStatsVer j) sql params st
                in (Inr ok, st')))))"

text \<open>
  \<^verbatim>\<open>Analyze\<close> (lines 80-106) in three parts: the closure given to
  \<^verbatim>\<open>CallWithSCtx\<close>, which assigns the captured variable \<^verbatim>\<open>success\<close>; the body, which
  starts from \<^verbatim>\<open>success := true\<close>; and the deferred function, which runs at exit
  with the value \<^verbatim>\<open>success\<close> has then, also when the body panicked. A panic of the
  deferred function replaces the result.
\<close>

definition Analyze_callback ::
  "('w, 's, 'e) collaborators \<Rightarrow> 'w NonPartitionedTableAnalysisJob \<Rightarrow> 's
    \<Rightarrow> bool \<times> 'w state \<Rightarrow> (panic + 'e option) \<times> (bool \<times> 'w state)" where
  "Analyze_callback X j sctx = (\<lambda>(success, st).
    if getAnalyzeType j = analyzeTable then
      (let (ok, st') = analyzeTable_job X j sctx st in (Inr None, (ok, st')))
    else if getAnalyzeType j = analyzeIndex then
      (case analyzeIndexes X j sctx st of
         (Inl p, st') \<Rightarrow> (Inl p, (success, st'))
       | (Inr ok, st') \<Rightarrow> (Inr None, (ok, st')))
    else (Inr None, (success, st)))"

definition Analyze_body ::
  "('w, 's, 'e) collaborators \<Rightarrow> 'w NonPartitionedTableAnalysisJob \<Rightarrow> 'w state
    \<Rightarrow> (panic + 'e option) \<times> (bool \<times> 'w state)" where
  "Analyze_body X j st = CallWithSCtx X (Analyze_callback X j) (True, st)"

definition Analyze_deferred ::
  "'w NonPartitionedTableAnalysisJob \<Rightarrow> bool \<Rightarrow> 'w state \<Rightarrow> (panic + unit) \<times> 'w state" where
  "Analyze_deferred j success st =
    (if success then
       (if successHook j \<noteq> None
        then call_JobHook SuccessHook (successHook j) (JobFields.truncate j) st
        else (Inr (), st))
     else
       (if failureHook j \<noteq> None
        then call_JobHook FailureHook (failureHook j) (JobFields.truncate j) st
        else (Inr (), st)))"

definition Analyze ::
  "('w, 's, 'e) collaborators \<Rightarrow> 'w NonPartitionedTableAnalysisJob \<Rightarrow> 'w state
    \<Rightarrow> (panic + 'e option) \<times> 'w state" where
  "Analyze X j st =
    (let (r, (success, st1)) = Analyze_body X j st;
         (d, st2) = Analyze_deferred j success st1
     in (case d of Inl p \<Rightarrow> Inl p | Inr u \<Rightarrow> r, st2))"

definition IsValidToAnalyze ::
  "('w, 's, 'e) collaborators \<Rightarrow> 'w NonPartitionedTableAnalysisJob \<Rightarrow> 's \<Rightarrow> 'w state
    \<Rightarrow> (panic + bool \<times> string) \<times> 'w state" where
  "IsValidToAnalyze X j sctx st =
    (let ((valid, failReason), w) = isValidToAnalyze X sctx (TableSchema j) (TableName j) (world st);
         st1 = st\<lparr>world := w\<rparr>
     in if \<not> valid then
          (let (d, st2) =
                 (if failureHook j \<noteq> None
                  then call_JobHook FailureHook (failureHook j) (JobFields.truncate j) st1
                  else (Inr (), st1))
           in (case d of Inl p \<Rightarrow> Inl p | Inr u \<Rightarrow> Inr (False, failReason), st2))
        else (Inr (True, []), st1))"

subsection \<open>Test fixtures\<close>

text \<open>
  Collaborators for the concrete runs below. The world counts: every statement adds 1,
  the success hook adds 100, the failure hook adds 1000. The pool always has a session
  unless \<open>pool_error\<close> is set; a statement fails exactly when its last parameter is the
  index \<open>failing\<close>; the eligibility check answers \<open>eligible\<close>.
\<close>

definition test_collaborators ::
  "string option \<Rightarrow> int \<Rightarrow> string \<Rightarrow> bool \<Rightarrow> (nat, unit, string) collaborators" where
  "test_collaborators pool_error version failing eligible =
    \<lparr> SPool_Get = (\<lambda>w. (case pool_error of None \<Rightarrow> Inr () | Some e \<Rightarrow> Inl e, w)),
      SPool_Put = (\<lambda>sctx w. w),
      AnalyzeVersion = (\<lambda>sctx w. version),
      exec_AutoAnalyze = (\<lambda>sctx statsVer sql params w. (last params \<noteq> failing, Suc w)),
      isValidToAnalyze = (\<lambda>sctx schema table w.
        ((eligible, if eligible then [] else ''last analysis failed recently''), w)) \<rparr>"

definition test_job :: "string list \<Rightarrow> nat NonPartitionedTableAnalysisJob" where
  "test_job indexes = NewNonPartitionedTableAnalysisJob ''test'' ''t'' 7 indexes 2 0 0 0"

definition test_job_with_hooks :: "string list \<Rightarrow> nat NonPartitionedTableAnalysisJob" where
  "test_job_with_hooks indexes =
    RegisterFailureHook (Some (\<lambda>j w. w + 1000))
      (RegisterSuccessHook (Some (\<lambda>j w. w + 100)) (test_job indexes))"

definition test_state :: "nat state" where
  "test_state = \<lparr> world = 0, trace = [] \<rparr>"

subsection \<open>Theorems about the accessors and the generators\<close>

text \<open>
  C7. \<open>getAnalyzeType\<close> returns the index-analysis constant exactly when
  \<open>HasNewlyAddedIndex\<close> is true, that is exactly when the list of newly added indexes is
  not empty, and the table-analysis constant exactly when the list is empty. It is a
  function of the job alone: it takes no state and returns none.
\<close>

theorem getAnalyzeType_decision:
  "(getAnalyzeType j = analyzeIndex) = HasNewlyAddedIndex j
   \<and> HasNewlyAddedIndex j = (Indexes j \<noteq> [])
   \<and> (getAnalyzeType j = analyzeTable) = (Indexes j = [])
   \<and> (getAnalyzeType j = analyzeIndex \<or> getAnalyzeType j = analyzeTable)"
  by (simp add: getAnalyzeType_def HasNewlyAddedIndex_def analyzeIndex_def analyzeTable_def)

text \<open>
  C8. \<open>GenSQLForAnalyzeTable\<close> returns the fixed analyze-table template, which does not
  depend on the job (no name is concatenated into it), with two identifier placeholders
  and the two parameters schema, table in this order; \<open>GenSQLForAnalyzeIndex\<close> returns a
  fixed template with three identifier placeholders and the three parameters schema,
  table, index in this order. In both the number of placeholders is the number of
  parameters.
\<close>

theorem GenSQL_templates_and_params:
  "fst (GenSQLForAnalyzeTable j) = ''analyze table %n.%n''
   \<and> snd (GenSQLForAnalyzeTable j) = [TableSchema j, TableName j]
   \<and> placeholders (fst (GenSQLForAnalyzeTable j)) = [Identifier, Identifier]
   \<and> length (placeholders (fst (GenSQLForAnalyzeTable j))) = length (snd (GenSQLForAnalyzeTable j))
   \<and> length (snd (GenSQLForAnalyzeTable j)) = 2
   \<and> fst (GenSQLForAnalyzeIndex j idx) = ''analyze table %n.%n index %n''
   \<and> snd (GenSQLForAnalyzeIndex j idx) = [TableSchema j, TableName j, idx]
   \<and> placeholders (fst (GenSQLForAnalyzeIndex j idx)) = [Identifier, Identifier, Identifier]
   \<and> length (placeholders (fst (GenSQLForAnalyzeIndex j idx))) = length (snd (GenSQLForAnalyzeIndex j idx))
   \<and> length (snd (GenSQLForAnalyzeIndex j idx)) = 3"
  by (simp add: GenSQLForAnalyzeTable_def GenSQLForAnalyzeIndex_def)

text \<open>
  C10. A job constructed with a change percentage, a table size and a last analysis
  duration returns from \<open>GetIndicators\<close> a value with these three fields; and after
  \<open>SetIndicators v\<close> on any job \<open>GetIndicators\<close> returns \<open>v\<close>.
\<close>

theorem Indicators_round_trip:
  "ChangePercentage (GetIndicators (NewNonPartitionedTableAnalysisJob s t i xs ver cp ts d)) = cp
   \<and> TableSize (GetIndicators (NewNonPartitionedTableAnalysisJob s t i xs ver cp ts d)) = ts
   \<and> LastAnalysisDuration (GetIndicators (NewNonPartitionedTableAnalysisJob s t i xs ver cp ts d)) = d
   \<and> GetIndicators (NewNonPartitionedTableAnalysisJob s t i xs ver cp ts d)
       = \<lparr> ChangePercentage = cp, TableSize = ts, LastAnalysisDuration = d \<rparr>
   \<and> GetIndicators (SetIndicators v j) = v"
  by (simp add: GetIndicators_def SetIndicators_def NewNonPartitionedTableAnalysisJob_def)

subsection \<open>Concrete runs\<close>

text \<open>The definitions a concrete run unfolds.\<close>

lemmas test_defs = test_collaborators_def test_job_def test_job_with_hooks_def test_state_def
  NewNonPartitionedTableAnalysisJob_def RegisterSuccessHook_def RegisterFailureHook_def

lemmas run_defs = Analyze_def Analyze_body_def Analyze_callback_def Analyze_deferred_def
  CallWithSCtx_def call_JobHook_def analyzeTable_job_def analyzeIndexes_def index_at_def
  AutoAnalyze_def GenSQLForAnalyzeTable_def GenSQLForAnalyzeIndex_def getAnalyzeType_def
  HasNewlyAddedIndex_def analyzeTable_def analyzeIndex_def IsValidToAnalyze_def
  hooks_fired_def map_filter_def

subsection \<open>Helper lemmas on the trace\<close>

lemma AutoAnalyze_trace:
  "AutoAnalyze X sctx v sql ps st = (ok, st') \<Longrightarrow>
    trace st' = trace st @ [AutoAnalyzeCalled v sql ps ok]"
  by (auto simp: AutoAnalyze_def split: prod.splits)

lemma hooks_fired_append: "hooks_fired (xs @ ys) = hooks_fired xs @ hooks_fired ys"
  by (simp add: hooks_fired_def map_filter_def)


lemma analyzeIndexes_returns:
  "\<exists>ok st'. analyzeIndexes X j sctx st = (Inr ok, st')"
  by (cases "Indexes j")
    (auto simp: analyzeIndexes_def index_at_def Let_def split: prod.splits)

lemma hooks_fired_AutoAnalyzeCalled: "hooks_fired [AutoAnalyzeCalled v sql ps ok] = []"
  by (simp add: hooks_fired_def map_filter_def)

lemma AutoAnalyze_quiet:
  "AutoAnalyze X sctx v sql ps st = (ok, st') \<Longrightarrow>
    \<exists>evs. trace st' = trace st @ evs \<and> hooks_fired evs = []"
  by (metis AutoAnalyze_trace hooks_fired_AutoAnalyzeCalled)

lemma analyzeIndexes_loop_quiet:
  "analyzeIndexes_loop X j sctx idxs st = (ok, st') \<Longrightarrow>
    \<exists>evs. trace st' = trace st @ evs \<and> hooks_fired evs = []"
proof (induction idxs arbitrary: st)
  case Nil
  then show ?case by (simp add: hooks_fired_def map_filter_def)
next
  case (Cons x xs)
  obtain sql ps where gen: "GenSQLForAnalyzeIndex j x = (sql, ps)"
    by (cases "GenSQLForAnalyzeIndex j x")
  obtain ok1 st1 where call: "AutoAnalyze X sctx (TableStatsVer j) sql ps st = (ok1, st1)"
    by (cases "AutoAnalyze X sctx (TableStatsVer j) sql ps st")
  from AutoAnalyze_quiet [OF call] obtain evs1
    where e1: "trace st1 = trace st @ evs1" "hooks_fired evs1 = []"
    by blast
  show ?case
  proof (cases ok1)
    case False
    with Cons.prems gen call have "st' = st1" by simp
    with e1 show ?thesis by blast
  next
    case True
    with Cons.prems gen call have "analyzeIndexes_loop X j sctx xs st1 = (ok, st')" by simp
    from Cons.IH [OF this] obtain evs2
      where e2: "trace st' = trace st1 @ evs2" "hooks_fired evs2 = []"
      by blast
    from e1 e2 have "trace st' = trace st @ (evs1 @ evs2)" "hooks_fired (evs1 @ evs2) = []"
      by (simp_all add: hooks_fired_append)
    then show ?thesis by blast
  qed
qed

lemma analyzeIndexes_quiet:
  assumes "analyzeIndexes X j sctx st = (r, st')"
  shows "\<exists>evs. trace st' = trace st @ evs \<and> hooks_fired evs = []"
proof (cases "Indexes j")
  case Nil
  with assms have "st' = st" by (simp add: analyzeIndexes_def)
  then show ?thesis by (simp add: hooks_fired_def map_filter_def)
next
  case (Cons first others)
  show ?thesis
  proof (cases "AnalyzeVersion X sctx (world st) = 1")
    case True
    obtain ok st2 where run: "analyzeIndexes_loop X j sctx (Indexes j) st = (ok, st2)"
      by (cases "analyzeIndexes_loop X j sctx (Indexes j) st")
    with assms Cons True have "st' = st2" by (simp add: analyzeIndexes_def)
    with analyzeIndexes_loop_quiet [OF run] show ?thesis by simp
  next
    case False
    obtain sql ps where gen: "GenSQLForAnalyzeIndex j first = (sql, ps)"
      by (cases "GenSQLForAnalyzeIndex j first")
    obtain ok st2 where call: "AutoAnalyze X sctx (TableStatsVer j) sql ps st = (ok, st2)"
      by (cases "AutoAnalyze X sctx (TableStatsVer j) sql ps st")
    with assms Cons False gen have "st' = st2"
      by (simp add: analyzeIndexes_def index_at_def)
    with AutoAnalyze_quiet [OF call] show ?thesis by simp
  qed
qed

lemma analyzeTable_job_quiet:
  "analyzeTable_job X j sctx st = (ok, st') \<Longrightarrow>
    \<exists>evs. trace st' = trace st @ evs \<and> hooks_fired evs = []"
  by (auto simp: analyzeTable_job_def split: prod.splits dest: AutoAnalyze_quiet)

lemma Analyze_callback_quiet:
  assumes "Analyze_callback X j sctx (l, st) = (r, (l', st'))"
  shows "\<exists>evs. trace st' = trace st @ evs \<and> hooks_fired evs = []"
proof -
  consider (tbl) "getAnalyzeType j = analyzeTable"
    | (idx) "getAnalyzeType j \<noteq> analyzeTable" "getAnalyzeType j = analyzeIndex"
    | (none) "getAnalyzeType j \<noteq> analyzeTable" "getAnalyzeType j \<noteq> analyzeIndex"
    by blast
  then show ?thesis
  proof cases
    case tbl
    obtain ok st2 where run: "analyzeTable_job X j sctx st = (ok, st2)"
      by (cases "analyzeTable_job X j sctx st")
    with assms tbl have "st' = st2" by (simp add: Analyze_callback_def)
    with analyzeTable_job_quiet [OF run] show ?thesis by simp
  next
    case idx
    obtain r2 st2 where run: "analyzeIndexes X j sctx st = (r2, st2)"
      by (cases "analyzeIndexes X j sctx st")
    with assms idx have "st' = st2"
      by (cases r2) (simp_all add: Analyze_callback_def)
    with analyzeIndexes_quiet [OF run] show ?thesis by simp
  next
    case none
    with assms have "st' = st" by (simp add: Analyze_callback_def)
    then show ?thesis by (simp add: hooks_fired_def map_filter_def)
  qed
qed

lemma Analyze_callback_returns_nil:
  "fst (Analyze_callback X j sctx (l, st)) = Inr None"
  using analyzeIndexes_returns [of X j sctx st]
  by (auto simp: Analyze_callback_def split: prod.splits)

lemma Analyze_body_quiet:
  assumes "Analyze_body X j st = (r, (success, st1))"
  shows "\<exists>evs. trace st1 = trace st @ evs \<and> hooks_fired evs = []"
proof (cases "SPool_Get X (world st)")
  case (Pair g w)
  show ?thesis
  proof (cases g)
    case (Inl err)
    with assms Pair have "trace st1 = trace st"
      by (auto simp: Analyze_body_def CallWithSCtx_def)
    then show ?thesis by (simp add: hooks_fired_def map_filter_def)
  next
    case (Inr sctx)
    obtain r2 l2 st2 where cb: "Analyze_callback X j sctx (True, st\<lparr>world := w\<rparr>) = (r2, (l2, st2))"
      by (cases "Analyze_callback X j sctx (True, st\<lparr>world := w\<rparr>)") auto
    with assms Pair Inr have "trace st1 = trace st2"
      by (auto simp: Analyze_body_def CallWithSCtx_def)
    with Analyze_callback_quiet [OF cb] show ?thesis by simp
  qed
qed

lemma Analyze_body_result:
  "SPool_Get X (world st) = (Inr sctx, w) \<Longrightarrow> fst (Analyze_body X j st) = Inr None"
  "SPool_Get X (world st) = (Inl err, w) \<Longrightarrow>
     Analyze_body X j st = (Inr (Some err), (True, st\<lparr>world := w\<rparr>))"
  using Analyze_callback_returns_nil [of X j sctx True "st\<lparr>world := w\<rparr>"]
  by (auto simp: Analyze_body_def CallWithSCtx_def split: prod.splits)

lemma Analyze_deferred_result:
  "Analyze_deferred j success st =
    (Inr (),
     if success then
       (case successHook j of None \<Rightarrow> st
        | Some h \<Rightarrow> \<lparr> world = h (JobFields.truncate j) (world st),
                      trace = trace st @ [HookCalled SuccessHook] \<rparr>)
     else
       (case failureHook j of None \<Rightarrow> st
        | Some h \<Rightarrow> \<lparr> world = h (JobFields.truncate j) (world st),
                      trace = trace st @ [HookCalled FailureHook] \<rparr>))"
  by (simp add: Analyze_deferred_def call_JobHook_def split: option.splits)

lemma Analyze_unfold:
  "Analyze_body X j st = (r, (success, st1)) \<Longrightarrow>
    Analyze X j st = (r, snd (Analyze_deferred j success st1))"
  by (simp add: Analyze_def Analyze_deferred_result)

text \<open>The success flag of \<open>Analyze\<close> is the result of the statements it ran.\<close>

lemma AutoAnalyze_outcome:
  "AutoAnalyze X sctx v sql ps st = (ok, st') \<Longrightarrow>
    \<exists>evs. evs \<noteq> [] \<and> hooks_fired evs = [] \<and> trace st' = trace st @ evs
      \<and> ok = (\<not> list_ex stmt_failed evs)"
  by (rule exI [of _ "[AutoAnalyzeCalled v sql ps ok]"])
    (simp add: AutoAnalyze_trace hooks_fired_AutoAnalyzeCalled)

lemma analyzeTable_job_outcome:
  "analyzeTable_job X j sctx st = (ok, st') \<Longrightarrow>
    \<exists>evs. evs \<noteq> [] \<and> hooks_fired evs = [] \<and> trace st' = trace st @ evs
      \<and> ok = (\<not> list_ex stmt_failed evs)"
  by (auto simp: analyzeTable_job_def split: prod.splits dest: AutoAnalyze_outcome)

lemma analyzeIndexes_loop_outcome:
  "idxs \<noteq> [] \<Longrightarrow> analyzeIndexes_loop X j sctx idxs st = (ok, st') \<Longrightarrow>
    \<exists>evs. evs \<noteq> [] \<and> hooks_fired evs = [] \<and> trace st' = trace st @ evs
      \<and> ok = (\<not> list_ex stmt_failed evs)"
proof (induction idxs arbitrary: st)
  case Nil
  then show ?case by simp
next
  case (Cons x xs)
  obtain sql ps where gen: "GenSQLForAnalyzeIndex j x = (sql, ps)"
    by (cases "GenSQLForAnalyzeIndex j x")
  obtain ok1 st1 where call: "AutoAnalyze X sctx (TableStatsVer j) sql ps st = (ok1, st1)"
    by (cases "AutoAnalyze X sctx (TableStatsVer j) sql ps st")
  from AutoAnalyze_outcome [OF call] obtain evs1
    where e1: "evs1 \<noteq> []" "hooks_fired evs1 = []" "trace st1 = trace st @ evs1"
      "ok1 = (\<not> list_ex stmt_failed evs1)"
    by blast
  show ?case
  proof (cases ok1)
    case False
    with Cons.prems gen call have "st' = st1" "ok = ok1" by simp_all
    with e1 show ?thesis by blast
  next
    case True
    with Cons.prems gen call have rest: "analyzeIndexes_loop X j sctx xs st1 = (ok, st')"
      by simp
    show ?thesis
    proof (cases "xs = []")
      case True
      with rest \<open>ok1\<close> have "st' = st1" "ok = ok1" by simp_all
      with e1 show ?thesis by blast
    next
      case False
      from Cons.IH [OF False rest] obtain evs2
        where e2: "hooks_fired evs2 = []" "trace st' = trace st1 @ evs2"
          "ok = (\<not> list_ex stmt_failed evs2)"
        by blast
      from e1 e2 \<open>ok1\<close> have "evs1 @ evs2 \<noteq> []" "hooks_fired (evs1 @ evs2) = []"
        "trace st' = trace st @ (evs1 @ evs2)" "ok = (\<not> list_ex stmt_failed (evs1 @ evs2))"
        by (simp_all add: hooks_fired_append)
      then show ?thesis by blast
    qed
  qed
qed

lemma analyzeIndexes_outcome:
  assumes "Indexes j \<noteq> []" and "analyzeIndexes X j sctx st = (r, st')"
  shows "\<exists>evs ok. r = Inr ok \<and> evs \<noteq> [] \<and> hooks_fired evs = []
      \<and> trace st' = trace st @ evs \<and> ok = (\<not> list_ex stmt_failed evs)"
proof (cases "AnalyzeVersion X sctx (world st) = 1")
  case True
  obtain ok st2 where run: "analyzeIndexes_loop X j sctx (Indexes j) st = (ok, st2)"
    by (cases "analyzeIndexes_loop X j sctx (Indexes j) st")
  with assms True have "r = Inr ok" "st' = st2" by (simp_all add: analyzeIndexes_def)
  with analyzeIndexes_loop_outcome [OF assms(1) run] show ?thesis by blast
next
  case False
  from assms(1) obtain first others where idx: "Indexes j = first # others"
    by (cases "Indexes j") auto
  obtain sql ps where gen: "GenSQLForAnalyzeIndex j first = (sql, ps)"
    by (cases "GenSQLForAnalyzeIndex j first")
  obtain ok st2 where call: "AutoAnalyze X sctx (TableStatsVer j) sql ps st = (ok, st2)"
    by (cases "AutoAnalyze X sctx (TableStatsVer j) sql ps st")
  with assms idx False gen have "r = Inr ok" "st' = st2"
    by (simp_all add: analyzeIndexes_def index_at_def)
  with AutoAnalyze_outcome [OF call] show ?thesis by blast
qed

lemma Analyze_callback_outcome:
  assumes "Analyze_callback X j sctx (l, st) = (r, (l', st'))"
  shows "r = Inr None \<and> (\<exists>evs. evs \<noteq> [] \<and> hooks_fired evs = []
      \<and> trace st' = trace st @ evs \<and> l' = (\<not> list_ex stmt_failed evs))"
proof (cases "Indexes j = []")
  case True
  then have ty: "getAnalyzeType j = analyzeTable"
    by (simp add: getAnalyzeType_def HasNewlyAddedIndex_def)
  obtain ok st2 where run: "analyzeTable_job X j sctx st = (ok, st2)"
    by (cases "analyzeTable_job X j sctx st")
  with assms ty have "r = Inr None" "l' = ok" "st' = st2"
    by (simp_all add: Analyze_callback_def)
  with analyzeTable_job_outcome [OF run] show ?thesis by blast
next
  case False
  then have ty: "getAnalyzeType j \<noteq> analyzeTable" "getAnalyzeType j = analyzeIndex"
    by (simp_all add: getAnalyzeType_def HasNewlyAddedIndex_def analyzeTable_def analyzeIndex_def)
  obtain r2 st2 where run: "analyzeIndexes X j sctx st = (r2, st2)"
    by (cases "analyzeIndexes X j sctx st")
  from analyzeIndexes_outcome [OF False run] obtain evs ok
    where o: "r2 = Inr ok" "evs \<noteq> []" "hooks_fired evs = []" "trace st2 = trace st @ evs"
      "ok = (\<not> list_ex stmt_failed evs)"
    by blast
  from assms ty run o(1) have "r = Inr None" "l' = ok" "st' = st2"
    by (simp_all add: Analyze_callback_def)
  with o show ?thesis by blast
qed

lemma Analyze_body_outcome:
  assumes "SPool_Get X (world st) = (Inr sctx, w)"
    and "Analyze_body X j st = (r, (success, st1))"
  shows "r = Inr None \<and> (\<exists>evs. evs \<noteq> [] \<and> hooks_fired evs = []
      \<and> trace st1 = trace st @ evs \<and> success = (\<not> list_ex stmt_failed evs))"
proof -
  obtain r2 l2 st2 where cb: "Analyze_callback X j sctx (True, st\<lparr>world := w\<rparr>) = (r2, (l2, st2))"
    by (cases "Analyze_callback X j sctx (True, st\<lparr>world := w\<rparr>)") auto
  with assms have "r = r2" "success = l2" "trace st1 = trace st2"
    by (auto simp: Analyze_body_def CallWithSCtx_def)
  with Analyze_callback_outcome [OF cb] show ?thesis by simp
qed

subsection \<open>The index-analysis policy\<close>



text \<open>
  C2. For a job with a non-empty list of newly added indexes, under analyze version 2 or
  higher, \<open>analyzeIndexes\<close> attempts exactly one statement, the one of the first index,
  and returns that statement's result, whatever the rest of the list is.
\<close>

theorem analyzeIndexes_version_2:
  assumes "Indexes j = first # others"
    and "2 \<le> AnalyzeVersion X sctx (world st)"
    and "exec_AutoAnalyze X sctx (TableStatsVer j) ''analyze table %n.%n index %n''
           [TableSchema j, TableName j, first] (world st) = (ok, w)"
  shows "analyzeIndexes X j sctx st =
    (Inr ok, \<lparr> world = w, trace = trace st @ [index_event j ok first] \<rparr>)"
  using assms
  by (simp add: analyzeIndexes_def index_at_def GenSQLForAnalyzeIndex_def AutoAnalyze_def
      index_event_def)

theorem analyzeIndexes_version_2_witness:
  "Indexes (test_job [''A'', ''B'', ''C'']) = ''A'' # [''B'', ''C'']
   \<and> 2 \<le> AnalyzeVersion (test_collaborators None 2 ''A'' True) () (world test_state)
   \<and> exec_AutoAnalyze (test_collaborators None 2 ''A'' True) ()
        (TableStatsVer (test_job [''A'', ''B'', ''C''])) ''analyze table %n.%n index %n''
        [TableSchema (test_job [''A'', ''B'', ''C'']), TableName (test_job [''A'', ''B'', ''C'']), ''A'']
        (world test_state) = (False, 1)
   \<and> analyzeIndexes (test_collaborators None 2 ''A'' True) (test_job [''A'', ''B'', ''C'']) ()
        test_state
       = (Inr False, \<lparr> world = 1,
            trace = trace test_state @ [index_event (test_job [''A'', ''B'', ''C'']) False ''A''] \<rparr>)"
proof -
  have h1: "Indexes (test_job [''A'', ''B'', ''C'']) = ''A'' # [''B'', ''C'']"
    by (simp add: test_defs)
  have h2: "2 \<le> AnalyzeVersion (test_collaborators None 2 ''A'' True) () (world test_state)"
    by (simp add: test_defs)
  have h3: "exec_AutoAnalyze (test_collaborators None 2 ''A'' True) ()
        (TableStatsVer (test_job [''A'', ''B'', ''C''])) ''analyze table %n.%n index %n''
        [TableSchema (test_job [''A'', ''B'', ''C'']), TableName (test_job [''A'', ''B'', ''C'']), ''A'']
        (world test_state) = (False, 1)"
    by (simp add: test_defs)
  show ?thesis
    by (rule conjI [OF h1 conjI [OF h2 conjI [OF h3 analyzeIndexes_version_2 [OF h1 h2 h3]]]])
qed

text \<open>
  C9. For a job with an empty list of newly added indexes \<open>analyzeIndexes\<close> returns true
  at once: the state is unchanged, no statement is attempted. For a non-empty list the
  read of the first element is in range, so \<open>analyzeIndexes\<close> never panics with an index
  out of range: on every job it returns a result.
\<close>

theorem analyzeIndexes_empty_and_in_bounds:
  "(Indexes j = [] \<longrightarrow> analyzeIndexes X j sctx st = (Inr True, st))
   \<and> (Indexes j \<noteq> [] \<longrightarrow> index_at (Indexes j) 0 = Inr (hd (Indexes j)))
   \<and> fst (analyzeIndexes X j sctx st) \<noteq> Inl IndexOutOfRange
   \<and> (\<exists>ok st'. analyzeIndexes X j sctx st = (Inr ok, st'))"
proof -
  have a: "Indexes j = [] \<longrightarrow> analyzeIndexes X j sctx st = (Inr True, st)"
    by (simp add: analyzeIndexes_def)
  have b: "Indexes j \<noteq> [] \<longrightarrow> index_at (Indexes j) 0 = Inr (hd (Indexes j))"
    by (cases "Indexes j") (simp_all add: index_at_def)
  from analyzeIndexes_returns [of X j sctx st]
  have c: "fst (analyzeIndexes X j sctx st) \<noteq> Inl IndexOutOfRange"
    by auto
  from a b c analyzeIndexes_returns [of X j sctx st] show ?thesis
    by blast
qed

theorem analyzeIndexes_empty_and_in_bounds_witness:
  "Indexes (test_job []) = []
   \<and> analyzeIndexes (test_collaborators None 2 ''A'' True) (test_job []) () test_state
       = (Inr True, test_state)
   \<and> Indexes (test_job [''A'', ''B'']) \<noteq> []
   \<and> index_at (Indexes (test_job [''A'', ''B''])) 0 = Inr (hd (Indexes (test_job [''A'', ''B''])))"
proof -
  have h1: "Indexes (test_job []) = []"
    by (simp add: test_defs)
  have h2: "Indexes (test_job [''A'', ''B'']) \<noteq> []"
    by (simp add: test_defs)
  note a = analyzeIndexes_empty_and_in_bounds
    [where j = "test_job []" and X = "test_collaborators None 2 ''A'' True" and sctx = "()"
       and st = test_state, THEN conjunct1, THEN mp, OF h1]
  note b = analyzeIndexes_empty_and_in_bounds
    [where j = "test_job [''A'', ''B'']", THEN conjunct2, THEN conjunct1, THEN mp, OF h2]
  show ?thesis
    by (rule conjI [OF h1 conjI [OF a conjI [OF h2 b]]])
qed

subsection \<open>Hooks and the return value of Analyze\<close>

text \<open>
  C3, as stated, fails: on a job with no hook registered \<open>Analyze\<close> invokes no hook at
  all, so it is not true that exactly one hook fires on every call.
\<close>

theorem Analyze_without_hooks_counterexample:
  "length (hooks_fired (trace (snd (Analyze (test_collaborators None 2 ''B'' True)
      (test_job [''A'']) test_state)))) \<noteq> 1"
  by (simp add: test_defs run_defs)

text \<open>
  C3, amended. On every call of \<open>Analyze\<close> no hook is invoked before exit, and at exit
  the hook chosen by the success flag (the success hook when the flag is still true, the
  failure hook otherwise) is invoked exactly once when it is registered; when it is not
  registered no hook is invoked. The other hook is never invoked. This holds whichever
  branch ran and also when the session could not be acquired.
\<close>

theorem Analyze_fires_registered_hook:
  assumes "Analyze_body X j st = (r, (success, st1))"
  shows "\<exists>evs. hooks_fired evs = []
    \<and> trace (snd (Analyze X j st)) = trace st @ evs @
        (if success
         then (case successHook j of None \<Rightarrow> [] | Some h \<Rightarrow> [HookCalled SuccessHook])
         else (case failureHook j of None \<Rightarrow> [] | Some h \<Rightarrow> [HookCalled FailureHook]))"
proof -
  from Analyze_body_quiet [OF assms] obtain evs
    where evs: "trace st1 = trace st @ evs" "hooks_fired evs = []"
    by blast
  have "trace (snd (Analyze X j st)) = trace st1 @
        (if success
         then (case successHook j of None \<Rightarrow> [] | Some h \<Rightarrow> [HookCalled SuccessHook])
         else (case failureHook j of None \<Rightarrow> [] | Some h \<Rightarrow> [HookCalled FailureHook]))"
    by (simp add: Analyze_unfold [OF assms] Analyze_deferred_result split: option.splits)
  with evs show ?thesis by auto
qed

theorem Analyze_fires_registered_hook_witness:
  "Analyze_body (test_collaborators None 1 ''B'' True) (test_job_with_hooks [''A'', ''B'', ''C''])
      test_state
     = (Inr None, (False, \<lparr> world = 2,
          trace = [index_event (test_job [''A'', ''B'', ''C'']) True ''A'',
                   index_event (test_job [''A'', ''B'', ''C'']) False ''B''] \<rparr>))
   \<and> (\<exists>evs. hooks_fired evs = []
    \<and> trace (snd (Analyze (test_collaborators None 1 ''B'' True)
          (test_job_with_hooks [''A'', ''B'', ''C'']) test_state))
        = trace test_state @ evs @ [HookCalled FailureHook])"
proof -
  have body: "Analyze_body (test_collaborators None 1 ''B'' True)
      (test_job_with_hooks [''A'', ''B'', ''C'']) test_state
     = (Inr None, (False, \<lparr> world = 2,
          trace = [index_event (test_job [''A'', ''B'', ''C'']) True ''A'',
                   index_event (test_job [''A'', ''B'', ''C'']) False ''B''] \<rparr>))"
    by (simp add: test_defs run_defs index_event_def)
  from Analyze_fires_registered_hook [OF body]
  have "\<exists>evs. hooks_fired evs = []
    \<and> trace (snd (Analyze (test_collaborators None 1 ''B'' True)
          (test_job_with_hooks [''A'', ''B'', ''C'']) test_state))
        = trace test_state @ evs @ [HookCalled FailureHook]"
    by (simp add: test_defs)
  with body show ?thesis by (rule conjI)
qed

text \<open>
  C4. A hook is invoked only if it is registered. On a job with no success hook,
  \<open>Analyze\<close> leaving with the flag true returns what its body returned in the state its
  body left: nothing is invoked. On a job with no failure hook the same holds for
  \<open>Analyze\<close> leaving with the flag false, and \<open>IsValidToAnalyze\<close> returning false
  changes the state only by what the eligibility check did. Neither method ever panics
  on a nil hook: both always return a result.
\<close>

theorem unregistered_hooks_are_not_called:
  "(successHook j = None \<longrightarrow> Analyze_body X j st = (r, (True, st1)) \<longrightarrow> Analyze X j st = (r, st1))
   \<and> (failureHook j = None \<longrightarrow> Analyze_body X j st = (r, (False, st1)) \<longrightarrow> Analyze X j st = (r, st1))
   \<and> (failureHook j = None \<longrightarrow>
        isValidToAnalyze X sctx (TableSchema j) (TableName j) (world st) = ((False, reason), w) \<longrightarrow>
        IsValidToAnalyze X j sctx st = (Inr (False, reason), st\<lparr>world := w\<rparr>))
   \<and> (\<exists>e. fst (Analyze X j st) = Inr e)
   \<and> (\<exists>v. fst (IsValidToAnalyze X j sctx st) = Inr v)"
proof -
  have a: "successHook j = None \<longrightarrow> Analyze_body X j st = (r, (True, st1)) \<longrightarrow> Analyze X j st = (r, st1)"
    by (simp add: Analyze_def Analyze_deferred_def)
  have b: "failureHook j = None \<longrightarrow> Analyze_body X j st = (r, (False, st1)) \<longrightarrow> Analyze X j st = (r, st1)"
    by (simp add: Analyze_def Analyze_deferred_def)
  have c: "failureHook j = None \<longrightarrow>
        isValidToAnalyze X sctx (TableSchema j) (TableName j) (world st) = ((False, reason), w) \<longrightarrow>
        IsValidToAnalyze X j sctx st = (Inr (False, reason), st\<lparr>world := w\<rparr>)"
    by (simp add: IsValidToAnalyze_def)
  have d: "\<exists>e. fst (Analyze X j st) = Inr e"
  proof (cases "SPool_Get X (world st)")
    case (Pair g w)
    obtain r0 success st1 where body: "Analyze_body X j st = (r0, (success, st1))"
      by (cases "Analyze_body X j st") auto
    from Pair Analyze_body_result [of X st _ w j] body have "\<exists>e. r0 = Inr e"
      by (cases g) auto
    with Analyze_unfold [OF body] show ?thesis by auto
  qed
  have e: "\<exists>v. fst (IsValidToAnalyze X j sctx st) = Inr v"
    by (auto simp: IsValidToAnalyze_def call_JobHook_def Let_def split: prod.splits option.splits)
  from a b c d e show ?thesis by blast
qed

theorem unregistered_hooks_are_not_called_witness:
  "successHook (test_job [''A'']) = None
   \<and> Analyze_body (test_collaborators None 2 ''B'' True) (test_job [''A'']) test_state
       = (Inr None, (True, \<lparr> world = 1, trace = [index_event (test_job [''A'']) True ''A''] \<rparr>))
   \<and> Analyze (test_collaborators None 2 ''B'' True) (test_job [''A'']) test_state
       = (Inr None, \<lparr> world = 1, trace = [index_event (test_job [''A'']) True ''A''] \<rparr>)
   \<and> failureHook (test_job [''A'']) = None
   \<and> Analyze_body (test_collaborators None 2 ''A'' True) (test_job [''A'']) test_state
       = (Inr None, (False, \<lparr> world = 1, trace = [index_event (test_job [''A'']) False ''A''] \<rparr>))
   \<and> Analyze (test_collaborators None 2 ''A'' True) (test_job [''A'']) test_state
       = (Inr None, \<lparr> world = 1, trace = [index_event (test_job [''A'']) False ''A''] \<rparr>)
   \<and> isValidToAnalyze (test_collaborators None 2 ''A'' False) ()
        (TableSchema (test_job [''A''])) (TableName (test_job [''A''])) (world test_state)
       = ((False, ''last analysis failed recently''), 0)
   \<and> IsValidToAnalyze (test_collaborators None 2 ''A'' False) (test_job [''A'']) () test_state
       = (Inr (False, ''last analysis failed recently''), test_state\<lparr>world := 0\<rparr>)"
proof -
  have s: "successHook (test_job [''A'']) = None"
    by (simp add: test_defs)
  have f: "failureHook (test_job [''A'']) = None"
    by (simp add: test_defs)
  have b1: "Analyze_body (test_collaborators None 2 ''B'' True) (test_job [''A'']) test_state
       = (Inr None, (True, \<lparr> world = 1, trace = [index_event (test_job [''A'']) True ''A''] \<rparr>))"
    by (simp add: test_defs run_defs index_event_def)
  have b2: "Analyze_body (test_collaborators None 2 ''A'' True) (test_job [''A'']) test_state
       = (Inr None, (False, \<lparr> world = 1, trace = [index_event (test_job [''A'']) False ''A''] \<rparr>))"
    by (simp add: test_defs run_defs index_event_def)
  have v: "isValidToAnalyze (test_collaborators None 2 ''A'' False) ()
        (TableSchema (test_job [''A''])) (TableName (test_job [''A''])) (world test_state)
       = ((False, ''last analysis failed recently''), 0)"
    by (simp add: test_defs)
  note t = unregistered_hooks_are_not_called
  note a1 = t [THEN conjunct1, THEN mp, THEN mp, OF s b1]
  note a2 = t [THEN conjunct2, THEN conjunct1, THEN mp, THEN mp, OF f b2]
  note a3 = t [THEN conjunct2, THEN conjunct2, THEN conjunct1, THEN mp, THEN mp, OF f v]
  show ?thesis
    by (rule conjI [OF s conjI [OF b1 conjI [OF a1 conjI [OF f conjI [OF b2 conjI [OF a2
          conjI [OF v a3]]]]]]])
qed

text \<open>
  C5, as stated, fails in its last part: on a job with no failure hook registered, with a
  session obtained and the statement failing, \<open>Analyze\<close> returns nil and invokes no
  hook, so the failure is not communicated through the failure hook.
\<close>

theorem Analyze_hookless_failure_counterexample:
  "SPool_Get (test_collaborators None 2 ''A'' True) (world test_state) = (Inr (), 0)
   \<and> exec_AutoAnalyze (test_collaborators None 2 ''A'' True) () 2
        ''analyze table %n.%n index %n'' [''test'', ''t'', ''A''] 0 = (False, 1)
   \<and> Analyze (test_collaborators None 2 ''A'' True) (test_job [''A'']) test_state
       = (Inr None, \<lparr> world = 1, trace = [index_event (test_job [''A'']) False ''A''] \<rparr>)
   \<and> FailureHook \<notin> set (hooks_fired (trace (snd
        (Analyze (test_collaborators None 2 ''A'' True) (test_job [''A'']) test_state))))"
  by (simp add: test_defs run_defs index_event_def)

text \<open>
  C5, amended. \<open>Analyze\<close> returns an error only when the pool gives no session, and
  then the pool's error. Whenever a session is obtained \<open>Analyze\<close> returns nil, also
  when a statement fails: at least one statement is run, no hook is invoked before
  exit, and at exit, when some statement that was run failed, the failure hook is invoked
  if one is registered and nothing is invoked otherwise; when none failed the same holds
  of the success hook. For a failed analyze-table statement, and for a failed statement
  of the first index under a version other than 1, the whole result and state are given.
\<close>

theorem Analyze_reports_failure_by_hook_only:
  "(SPool_Get X (world st) = (Inl err, w) \<longrightarrow> fst (Analyze X j st) = Inr (Some err))
   \<and> (SPool_Get X (world st) = (Inr sctx, w) \<longrightarrow>
        fst (Analyze X j st) = Inr None
        \<and> (\<exists>evs. evs \<noteq> [] \<and> hooks_fired evs = []
            \<and> trace (snd (Analyze X j st)) = trace st @ evs @
                (if list_ex stmt_failed evs
                 then (case failureHook j of None \<Rightarrow> [] | Some h \<Rightarrow> [HookCalled FailureHook])
                 else (case successHook j of None \<Rightarrow> [] | Some h \<Rightarrow> [HookCalled SuccessHook]))))
   \<and> (SPool_Get X (world st) = (Inr sctx, w) \<longrightarrow> Indexes j = [] \<longrightarrow>
        exec_AutoAnalyze X sctx (TableStatsVer j) ''analyze table %n.%n''
          [TableSchema j, TableName j] w = (False, w') \<longrightarrow>
        Analyze X j st =
          (Inr None,
           case failureHook j of
             None \<Rightarrow>
               \<lparr> world = SPool_Put X sctx w',
                 trace = trace st @ [AutoAnalyzeCalled (TableStatsVer j) ''analyze table %n.%n''
                                      [TableSchema j, TableName j] False] \<rparr>
           | Some h \<Rightarrow>
               \<lparr> world = h (JobFields.truncate j) (SPool_Put X sctx w'),
                 trace = trace st @ [AutoAnalyzeCalled (TableStatsVer j) ''analyze table %n.%n''
                                      [TableSchema j, TableName j] False,
                                     HookCalled FailureHook] \<rparr>))
   \<and> (SPool_Get X (world st) = (Inr sctx, w) \<longrightarrow> Indexes j = first # others \<longrightarrow>
        AnalyzeVersion X sctx w \<noteq> 1 \<longrightarrow>
        exec_AutoAnalyze X sctx (TableStatsVer j) ''analyze table %n.%n index %n''
          [TableSchema j, TableName j, first] w = (False, w') \<longrightarrow>
        Analyze X j st =
          (Inr None,
           case failureHook j of
             None \<Rightarrow>
               \<lparr> world = SPool_Put X sctx w', trace = trace st @ [index_event j False first] \<rparr>
           | Some h \<Rightarrow>
               \<lparr> world = h (JobFields.truncate j) (SPool_Put X sctx w'),
                 trace = trace st @ [index_event j False first, HookCalled FailureHook] \<rparr>))"
proof -
  obtain r0 success st0 where body: "Analyze_body X j st = (r0, (success, st0))"
    by (cases "Analyze_body X j st") auto
  have a: "SPool_Get X (world st) = (Inl err, w) \<longrightarrow> fst (Analyze X j st) = Inr (Some err)"
    using Analyze_body_result(2) [of X st err w j] body Analyze_unfold [OF body] by auto
  have b: "SPool_Get X (world st) = (Inr sctx, w) \<longrightarrow>
        fst (Analyze X j st) = Inr None
        \<and> (\<exists>evs. evs \<noteq> [] \<and> hooks_fired evs = []
            \<and> trace (snd (Analyze X j st)) = trace st @ evs @
                (if list_ex stmt_failed evs
                 then (case failureHook j of None \<Rightarrow> [] | Some h \<Rightarrow> [HookCalled FailureHook])
                 else (case successHook j of None \<Rightarrow> [] | Some h \<Rightarrow> [HookCalled SuccessHook])))"
  proof
    assume got: "SPool_Get X (world st) = (Inr sctx, w)"
    from Analyze_body_outcome [OF got body] obtain evs
      where o: "r0 = Inr None" "evs \<noteq> []" "hooks_fired evs = []" "trace st0 = trace st @ evs"
        "success = (\<not> list_ex stmt_failed evs)"
      by blast
    have tr: "trace (snd (Analyze X j st)) = trace st0 @
        (if success
         then (case successHook j of None \<Rightarrow> [] | Some h \<Rightarrow> [HookCalled SuccessHook])
         else (case failureHook j of None \<Rightarrow> [] | Some h \<Rightarrow> [HookCalled FailureHook]))"
      by (simp add: Analyze_unfold [OF body] Analyze_deferred_result split: option.splits)
    from o(1) have r: "fst (Analyze X j st) = Inr None"
      by (simp add: Analyze_unfold [OF body])
    from tr o(4,5) have "trace (snd (Analyze X j st)) = trace st @ evs @
                (if list_ex stmt_failed evs
                 then (case failureHook j of None \<Rightarrow> [] | Some h \<Rightarrow> [HookCalled FailureHook])
                 else (case successHook j of None \<Rightarrow> [] | Some h \<Rightarrow> [HookCalled SuccessHook]))"
      by simp
    with r o(2,3) show "fst (Analyze X j st) = Inr None
        \<and> (\<exists>evs. evs \<noteq> [] \<and> hooks_fired evs = []
            \<and> trace (snd (Analyze X j st)) = trace st @ evs @
                (if list_ex stmt_failed evs
                 then (case failureHook j of None \<Rightarrow> [] | Some h \<Rightarrow> [HookCalled FailureHook])
                 else (case successHook j of None \<Rightarrow> [] | Some h \<Rightarrow> [HookCalled SuccessHook])))"
      by blast
  qed
  have c: "SPool_Get X (world st) = (Inr sctx, w) \<longrightarrow> Indexes j = [] \<longrightarrow>
        exec_AutoAnalyze X sctx (TableStatsVer j) ''analyze table %n.%n''
          [TableSchema j, TableName j] w = (False, w') \<longrightarrow>
        Analyze X j st =
          (Inr None,
           case failureHook j of
             None \<Rightarrow>
               \<lparr> world = SPool_Put X sctx w',
                 trace = trace st @ [AutoAnalyzeCalled (TableStatsVer j) ''analyze table %n.%n''
                                      [TableSchema j, TableName j] False] \<rparr>
           | Some h \<Rightarrow>
               \<lparr> world = h (JobFields.truncate j) (SPool_Put X sctx w'),
                 trace = trace st @ [AutoAnalyzeCalled (TableStatsVer j) ''analyze table %n.%n''
                                      [TableSchema j, TableName j] False,
                                     HookCalled FailureHook] \<rparr>)"
    by (simp add: Analyze_def Analyze_body_def CallWithSCtx_def Analyze_callback_def
        getAnalyzeType_def HasNewlyAddedIndex_def analyzeTable_job_def GenSQLForAnalyzeTable_def
        AutoAnalyze_def Analyze_deferred_def call_JobHook_def split: option.splits)
  have d: "SPool_Get X (world st) = (Inr sctx, w) \<longrightarrow> Indexes j = first # others \<longrightarrow>
        AnalyzeVersion X sctx w \<noteq> 1 \<longrightarrow>
        exec_AutoAnalyze X sctx (TableStatsVer j) ''analyze table %n.%n index %n''
          [TableSchema j, TableName j, first] w = (False, w') \<longrightarrow>
        Analyze X j st =
          (Inr None,
           case failureHook j of
             None \<Rightarrow>
               \<lparr> world = SPool_Put X sctx w', trace = trace st @ [index_event j False first] \<rparr>
           | Some h \<Rightarrow>
               \<lparr> world = h (JobFields.truncate j) (SPool_Put X sctx w'),
                 trace = trace st @ [index_event j False first, HookCalled FailureHook] \<rparr>)"
    by (simp add: Analyze_def Analyze_body_def CallWithSCtx_def Analyze_callback_def
        getAnalyzeType_def HasNewlyAddedIndex_def analyzeTable_def analyzeIndex_def
        analyzeIndexes_def index_at_def GenSQLForAnalyzeIndex_def index_event_def
        AutoAnalyze_def Analyze_deferred_def call_JobHook_def split: option.splits)
  from a b c d show ?thesis by blast
qed

theorem Analyze_reports_failure_by_hook_only_witness:
  "SPool_Get (test_collaborators (Some ''no session'') 2 ''t'' True) (world test_state)
       = (Inl ''no session'', 0)
   \<and> fst (Analyze (test_collaborators (Some ''no session'') 2 ''t'' True)
        (test_job_with_hooks []) test_state) = Inr (Some ''no session'')
   \<and> SPool_Get (test_collaborators None 2 ''t'' True) (world test_state) = (Inr (), 0)
   \<and> Indexes (test_job_with_hooks []) = []
   \<and> exec_AutoAnalyze (test_collaborators None 2 ''t'' True) ()
        (TableStatsVer (test_job_with_hooks [])) ''analyze table %n.%n''
        [TableSchema (test_job_with_hooks []), TableName (test_job_with_hooks [])] 0 = (False, 1)
   \<and> Analyze (test_collaborators None 2 ''t'' True) (test_job_with_hooks []) test_state
       = (Inr None,
          \<lparr> world = 1001,
            trace = [AutoAnalyzeCalled 2 ''analyze table %n.%n'' [''test'', ''t''] False,
                     HookCalled FailureHook] \<rparr>)
   \<and> SPool_Get (test_collaborators None 1 ''B'' True) (world test_state) = (Inr (), 0)
   \<and> fst (Analyze (test_collaborators None 1 ''B'' True)
        (test_job_with_hooks [''A'', ''B'', ''C'']) test_state) = Inr None
   \<and> trace (snd (Analyze (test_collaborators None 1 ''B'' True)
        (test_job_with_hooks [''A'', ''B'', ''C'']) test_state))
       = [index_event (test_job [''A'', ''B'', ''C'']) True ''A'',
          index_event (test_job [''A'', ''B'', ''C'']) False ''B'',
          HookCalled FailureHook]"
proof -
  have g0: "SPool_Get (test_collaborators (Some ''no session'') 2 ''t'' True) (world test_state)
       = (Inl ''no session'', 0)"
    by (simp add: test_defs)
  have g1: "SPool_Get (test_collaborators None 2 ''t'' True) (world test_state) = (Inr (), 0)"
    by (simp add: test_defs)
  have g2: "SPool_Get (test_collaborators None 1 ''B'' True) (world test_state) = (Inr (), 0)"
    by (simp add: test_defs)
  have i: "Indexes (test_job_with_hooks []) = []"
    by (simp add: test_defs)
  have x: "exec_AutoAnalyze (test_collaborators None 2 ''t'' True) ()
        (TableStatsVer (test_job_with_hooks [])) ''analyze table %n.%n''
        [TableSchema (test_job_with_hooks []), TableName (test_job_with_hooks [])] 0 = (False, 1)"
    by (simp add: test_defs)
  note t = Analyze_reports_failure_by_hook_only
  note a = t [THEN conjunct1, THEN mp, OF g0]
  note c = t [THEN conjunct2, THEN conjunct2, THEN conjunct1, THEN mp, THEN mp, THEN mp, OF g1 i x]
  note b = t [THEN conjunct2, THEN conjunct1, THEN mp, OF g2, THEN conjunct1]
  have c': "Analyze (test_collaborators None 2 ''t'' True) (test_job_with_hooks []) test_state
       = (Inr None,
          \<lparr> world = 1001,
            trace = [AutoAnalyzeCalled 2 ''analyze table %n.%n'' [''test'', ''t''] False,
                     HookCalled FailureHook] \<rparr>)"
    using c by (simp add: test_defs)
  have tr: "trace (snd (Analyze (test_collaborators None 1 ''B'' True)
        (test_job_with_hooks [''A'', ''B'', ''C'']) test_state))
       = [index_event (test_job [''A'', ''B'', ''C'']) True ''A'',
          index_event (test_job [''A'', ''B'', ''C'']) False ''B'',
          HookCalled FailureHook]"
    by (simp add: test_defs run_defs index_event_def)
  show ?thesis
    by (rule conjI [OF g0 conjI [OF a conjI [OF g1 conjI [OF i conjI [OF x conjI [OF c'
          conjI [OF g2 conjI [OF b tr]]]]]]]])
qed

subsection \<open>The validity gate\<close>

text \<open>
  C6, as stated, fails: on a job with no failure hook registered, an ineligible answer of
  the eligibility check makes \<open>IsValidToAnalyze\<close> return false with the reason, and no
  hook is invoked.
\<close>

theorem IsValidToAnalyze_without_failure_hook_counterexample:
  "fst (isValidToAnalyze (test_collaborators None 2 ''B'' False) () ''test'' ''t'' 0)
      = (False, ''last analysis failed recently'')
   \<and> IsValidToAnalyze (test_collaborators None 2 ''B'' False) (test_job []) () test_state
      = (Inr (False, ''last analysis failed recently''), test_state)
   \<and> FailureHook \<notin> set (hooks_fired (trace (snd
        (IsValidToAnalyze (test_collaborators None 2 ''B'' False) (test_job []) () test_state))))"
  by (simp add: test_defs run_defs)

text \<open>
  C6, amended. When the eligibility check reports the (schema, table) pair ineligible,
  \<open>IsValidToAnalyze\<close> invokes the failure hook if one is registered (and nothing
  otherwise) and then returns false with the reason of the check; when the check reports
  it eligible, \<open>IsValidToAnalyze\<close> returns true with the empty reason and invokes no
  hook.
\<close>

theorem IsValidToAnalyze_fires_registered_failure_hook:
  "(isValidToAnalyze X sctx (TableSchema j) (TableName j) (world st) = ((False, reason), w) \<longrightarrow>
      IsValidToAnalyze X j sctx st =
        (Inr (False, reason),
         case failureHook j of
           None \<Rightarrow> st\<lparr>world := w\<rparr>
         | Some h \<Rightarrow> \<lparr> world = h (JobFields.truncate j) w,
                       trace = trace st @ [HookCalled FailureHook] \<rparr>))
   \<and> (isValidToAnalyze X sctx (TableSchema j) (TableName j) (world st) = ((True, reason), w) \<longrightarrow>
      IsValidToAnalyze X j sctx st = (Inr (True, ''''), st\<lparr>world := w\<rparr>))"
  by (simp add: IsValidToAnalyze_def call_JobHook_def split: option.splits)

theorem IsValidToAnalyze_fires_registered_failure_hook_witness:
  "isValidToAnalyze (test_collaborators None 2 ''A'' False) ()
        (TableSchema (test_job_with_hooks [])) (TableName (test_job_with_hooks []))
        (world test_state)
       = ((False, ''last analysis failed recently''), 0)
   \<and> IsValidToAnalyze (test_collaborators None 2 ''A'' False) (test_job_with_hooks []) ()
        test_state
       = (Inr (False, ''last analysis failed recently''),
          \<lparr> world = 1000, trace = [HookCalled FailureHook] \<rparr>)
   \<and> isValidToAnalyze (test_collaborators None 2 ''A'' True) ()
        (TableSchema (test_job_with_hooks [])) (TableName (test_job_with_hooks []))
        (world test_state)
       = ((True, ''''), 0)
   \<and> IsValidToAnalyze (test_collaborators None 2 ''A'' True) (test_job_with_hooks []) ()
        test_state
       = (Inr (True, ''''), test_state\<lparr>world := 0\<rparr>)"
proof -
  have v1: "isValidToAnalyze (test_collaborators None 2 ''A'' False) ()
        (TableSchema (test_job_with_hooks [])) (TableName (test_job_with_hooks []))
        (world test_state)
       = ((False, ''last analysis failed recently''), 0)"
    by (simp add: test_defs)
  have v2: "isValidToAnalyze (test_collaborators None 2 ''A'' True) ()
        (TableSchema (test_job_with_hooks [])) (TableName (test_job_with_hooks []))
        (world test_state)
       = ((True, ''''), 0)"
    by (simp add: test_defs)
  note t = IsValidToAnalyze_fires_registered_failure_hook
  note a1 = t [THEN conjunct1, THEN mp, OF v1]
  note a2 = t [THEN conjunct2, THEN mp, OF v2]
  have a1': "IsValidToAnalyze (test_collaborators None 2 ''A'' False) (test_job_with_hooks []) ()
        test_state
       = (Inr (False, ''last analysis failed recently''),
          \<lparr> world = 1000, trace = [HookCalled FailureHook] \<rparr>)"
    using a1 by (simp add: test_defs)
  show ?thesis
    by (rule conjI [OF v1 conjI [OF a1' conjI [OF v2 a2]]])
qed

end
